theory Spec2Isabelle
  imports
    Complex_Main
    "HOL-Library.Char_ord"
    "HOL-Library.List_Lexorder"
    "HOL-Library.Product_Lexorder"
begin

section \<open>Customer sales analysis: the data pipeline of main.py\<close>

text \<open>
  The script reads two CSV tables with pandas, joins them and derives five aggregate
  views and a pivot table. A DataFrame is modelled as the list of its rows, in row
  order; a Series as the list of its (index label, value) pairs, in order. Numeric
  columns are exact rationals: the rounding of float64 and the wrap-around of int64 are
  not part of the model. Every cell of an input table is present (the data model has no
  missing values), and the customer table carries no column besides
  \<open>customer_id\<close> and \<open>customer_name\<close>.
\<close>

subsection \<open>Errors and numeric results\<close>

text \<open>
  \<open>ParseError\<close>: \<open>pd.to_datetime\<close> rejects a date string.
  \<open>IndexError\<close>: position 0 of an empty index is read.
  \<open>KeyError\<close>: a label is looked up that the table does not have.
  \<open>EmptyResultError\<close> is the error the specification names for an empty ranking;
  no function of main.py raises it.
\<close>

datatype error = ParseError | IndexError | KeyError | EmptyResultError

text \<open>
  The result of a float64 division or mean: on Series, pandas does not raise on a zero
  denominator but yields an infinity or NaN.
\<close>

datatype fvalue = Num rat | PosInf | NegInf | NaN

definition truediv :: "rat \<Rightarrow> rat \<Rightarrow> fvalue" where
  "truediv a b =
     (if b \<noteq> 0 then Num (a / b)
      else if 0 < a then PosInf
      else if a < 0 then NegInf
      else NaN)"

subsection \<open>Tables\<close>

record sales_row =
  order_id :: int
  customer_id :: int
  product_name :: string
  quantity :: rat
  price :: rat
  order_date :: string
  region :: string

record customer_row =
  c_customer_id :: int
  c_customer_name :: string

text \<open>A parsed date (year, month, day) and a monthly period (year, month).\<close>

type_synonym timestamp = "int \<times> nat \<times> nat"
type_synonym period = "int \<times> nat"

definition to_period_M :: "timestamp \<Rightarrow> period" where
  "to_period_M t = (fst t, fst (snd t))"

text \<open>
  A row of the merged table \<open>df\<close>: the sales columns (with \<open>order_date\<close>
  converted), the calculated columns \<open>revenue\<close> and \<open>month\<close>, and
  \<open>customer_name\<close> from the customer table.
\<close>

record enriched_row =
  e_order_id :: int
  e_customer_id :: int
  e_product_name :: string
  e_quantity :: rat
  e_price :: rat
  e_order_date :: timestamp
  e_region :: string
  e_revenue :: rat
  e_month :: period
  e_customer_name :: string

subsection \<open>preprocess\_data\<close>

text \<open>
  Lines 24 to 28: the date column is converted (the first string that does not parse
  aborts the whole call), then \<open>revenue\<close> and \<open>month\<close> are added to every
  row. \<open>pd.to_datetime\<close> is a parameter: \<open>None\<close> stands for a string it rejects.
\<close>

fun convert_dates :: "(string \<Rightarrow> timestamp option) \<Rightarrow> sales_row list
    \<Rightarrow> error + (sales_row \<times> timestamp) list" where
  "convert_dates to_datetime [] = Inr []"
| "convert_dates to_datetime (s # ss) =
     (case to_datetime (order_date s) of
        None \<Rightarrow> Inl ParseError
      | Some t \<Rightarrow>
          (case convert_dates to_datetime ss of
             Inl e \<Rightarrow> Inl e
           | Inr rest \<Rightarrow> Inr ((s, t) # rest)))"

definition enrich :: "sales_row \<times> timestamp \<Rightarrow> customer_row \<Rightarrow> enriched_row" where
  "enrich st c =
     \<lparr>e_order_id = order_id (fst st),
      e_customer_id = customer_id (fst st),
      e_product_name = product_name (fst st),
      e_quantity = quantity (fst st),
      e_price = price (fst st),
      e_order_date = snd st,
      e_region = region (fst st),
      e_revenue = quantity (fst st) * price (fst st),
      e_month = to_period_M (snd st),
      e_customer_name = c_customer_name c\<rparr>"

text \<open>
  \<open>pd.merge(sales, customers, on="customer_id", how="inner")\<close>: the sales rows in
  their order, each paired with every customer row of the same \<open>customer_id\<close>; a
  sales row without a match is dropped.
\<close>

definition merge_inner :: "(sales_row \<times> timestamp) list \<Rightarrow> customer_row list
    \<Rightarrow> enriched_row list" where
  "merge_inner sales customers =
     concat (map (\<lambda>st. map (enrich st)
                    (filter (\<lambda>c. c_customer_id c = customer_id (fst st)) customers))
                 sales)"

definition preprocess_data :: "(string \<Rightarrow> timestamp option) \<Rightarrow> sales_row list
    \<Rightarrow> customer_row list \<Rightarrow> error + enriched_row list" where
  "preprocess_data to_datetime sales customers =
     (case convert_dates to_datetime sales of
        Inl e \<Rightarrow> Inl e
      | Inr dated \<Rightarrow> Inr (merge_inner dated customers))"

subsection \<open>Group-by, sums and descending sort\<close>

text \<open>
  \<open>df.groupby(key)\<close>: one group per distinct key, the keys ascending (pandas sorts
  group keys by default), each group holding its rows in table order.
\<close>

definition groupby :: "('r \<Rightarrow> 'k::linorder) \<Rightarrow> 'r list \<Rightarrow> ('k \<times> 'r list) list" where
  "groupby key df =
     map (\<lambda>k. (k, filter (\<lambda>r. key r = k) df)) (sort (remdups (map key df)))"

definition groupby_sum :: "('r \<Rightarrow> 'k::linorder) \<Rightarrow> ('r \<Rightarrow> rat) \<Rightarrow> 'r list
    \<Rightarrow> ('k \<times> rat) list" where
  "groupby_sum key col df = map (\<lambda>(k, g). (k, sum_list (map col g))) (groupby key df)"

text \<open>
  \<open>.sort_values(ascending=False)\<close>: the entries by descending value. Entries of
  equal value stay in their order (pandas leaves their order to the sorting algorithm).
\<close>

definition sort_values_desc :: "('k \<times> rat) list \<Rightarrow> ('k \<times> rat) list" where
  "sort_values_desc s = sort_key (\<lambda>p. - snd p) s"

definition nunique :: "'a list \<Rightarrow> nat" where
  "nunique xs = length (remdups xs)"

subsection \<open>customer\_analysis\<close>

record clv_row =
  total_spent :: rat
  total_orders :: nat
  avg_order_value :: fvalue

definition clv_agg :: "enriched_row list \<Rightarrow> clv_row" where
  "clv_agg g =
     (let spent = sum_list (map e_revenue g);
          orders = nunique (map e_order_id g)
      in \<lparr>total_spent = spent, total_orders = orders,
          avg_order_value = truediv spent (of_nat orders)\<rparr>)"

definition customer_analysis :: "enriched_row list
    \<Rightarrow> (string \<times> rat) list \<times> (int \<times> clv_row) list" where
  "customer_analysis df =
     (let customer_revenue = sort_values_desc (groupby_sum e_customer_name e_revenue df);
          clv = map (\<lambda>(c, g). (c, clv_agg g)) (groupby e_customer_id df)
      in (customer_revenue, clv))"

subsection \<open>sales\_analysis\<close>

definition head :: "nat \<Rightarrow> 'a list \<Rightarrow> 'a list" where
  "head n s = take n s"

definition sales_analysis :: "enriched_row list
    \<Rightarrow> (period \<times> rat) list \<times> (string \<times> rat) list \<times> (string \<times> rat) list" where
  "sales_analysis df =
     (let monthly_sales = groupby_sum e_month e_revenue df;
          top_products = head 10 (sort_values_desc (groupby_sum e_product_name e_revenue df));
          region_sales = sort_values_desc (groupby_sum e_region e_revenue df)
      in (monthly_sales, top_products, region_sales))"

definition monthly_sales_of :: "enriched_row list \<Rightarrow> (period \<times> rat) list" where
  "monthly_sales_of df = fst (sales_analysis df)"

definition top_products_of :: "enriched_row list \<Rightarrow> (string \<times> rat) list" where
  "top_products_of df = fst (snd (sales_analysis df))"

definition region_sales_of :: "enriched_row list \<Rightarrow> (string \<times> rat) list" where
  "region_sales_of df = snd (snd (sales_analysis df))"

definition customer_revenue_of :: "enriched_row list \<Rightarrow> (string \<times> rat) list" where
  "customer_revenue_of df = fst (customer_analysis df)"

definition clv_of :: "enriched_row list \<Rightarrow> (int \<times> clv_row) list" where
  "clv_of df = snd (customer_analysis df)"

subsection \<open>pivot\_analysis\<close>

text \<open>
  \<open>pd.pivot_table(df, values="revenue", index="region", columns="product_name",
  aggfunc="sum")\<close>: the revenue is summed per (region, product) group and the groups
  are unstacked, the regions ascending as row labels and the products ascending as
  column labels. A cell whose pair has no group is missing (\<open>None\<close>, NaN in pandas);
  no fill value is given.
\<close>

record pivot_table =
  pt_index :: "string list"
  pt_columns :: "string list"
  pt_cells :: "rat option list list"

definition pivot_analysis :: "enriched_row list \<Rightarrow> pivot_table" where
  "pivot_analysis df =
     (let agged = groupby_sum (\<lambda>r. (e_region r, e_product_name r)) e_revenue df;
          regions = sort (remdups (map e_region df));
          products = sort (remdups (map e_product_name df))
      in \<lparr>pt_index = regions, pt_columns = products,
          pt_cells = map (\<lambda>r. map (\<lambda>p. map_of agged (r, p)) products) regions\<rparr>)"

fun position :: "'a \<Rightarrow> 'a list \<Rightarrow> nat option" where
  "position a [] = None"
| "position a (x # xs) = (if a = x then Some 0 else map_option Suc (position a xs))"

text \<open>
  Reading the cell at row label \<open>r\<close> and column label \<open>p\<close>
  (\<open>pivot_table.loc[r, p]\<close>): a label the table does not have raises KeyError.
\<close>

definition pivot_loc :: "pivot_table \<Rightarrow> string \<Rightarrow> string \<Rightarrow> error + rat option" where
  "pivot_loc pt r p =
     (case position r (pt_index pt) of
        None \<Rightarrow> Inl KeyError
      | Some i \<Rightarrow>
          (case position p (pt_columns pt) of
             None \<Rightarrow> Inl KeyError
           | Some j \<Rightarrow> Inr (pt_cells pt ! i ! j)))"

subsection \<open>print\_summary\<close>

text \<open>
  The four figures of the report, before they are formatted. The figures are all
  computed before the first line is printed, so a failure prints nothing.
\<close>

record summary =
  s_total_revenue :: rat
  s_total_customers :: nat
  s_avg_order_value :: fvalue
  s_top_customer :: string
  s_top_customer_value :: rat

text \<open>\<open>Series.mean()\<close>: NaN on an empty Series.\<close>

definition mean :: "rat list \<Rightarrow> fvalue" where
  "mean xs = (if xs = [] then NaN else Num (sum_list xs / of_nat (length xs)))"

definition print_summary :: "enriched_row list \<Rightarrow> (string \<times> rat) list \<Rightarrow> error + summary" where
  "print_summary df customer_revenue =
     (let total_revenue = sum_list (map e_revenue df);
          total_customers = nunique (map e_customer_id df);
          avg = mean (map snd (groupby_sum e_order_id e_revenue df))
      in case customer_revenue of
           [] \<Rightarrow> Inl IndexError
         | entry # _ \<Rightarrow>
             Inr \<lparr>s_total_revenue = total_revenue, s_total_customers = total_customers,
                  s_avg_order_value = avg, s_top_customer = fst entry,
                  s_top_customer_value = snd entry\<rparr>)"

subsection \<open>Dates in ISO form\<close>

text \<open>
  \<open>pd.to_datetime\<close> on a calendar date written \<open>YYYY-MM-DD\<close> with a year from
  1678 to 2261 (the years a nanosecond timestamp holds in full). Any other string is
  outside this parser: it is used for the worked example only.
\<close>

definition digit :: "char \<Rightarrow> nat option" where
  "digit c = (if CHR ''0'' \<le> c \<and> c \<le> CHR ''9'' then Some (of_char c - 48) else None)"

fun number :: "nat \<Rightarrow> string \<Rightarrow> nat option" where
  "number acc [] = Some acc"
| "number acc (c # cs) =
     (case digit c of None \<Rightarrow> None | Some d \<Rightarrow> number (10 * acc + d) cs)"

definition is_leap :: "nat \<Rightarrow> bool" where
  "is_leap y = (y mod 4 = 0 \<and> (0 < y mod 100 \<or> y mod 400 = 0))"

definition days_in_month :: "nat \<Rightarrow> nat \<Rightarrow> nat" where
  "days_in_month y m =
     (if m = 2 then (if is_leap y then 29 else 28)
      else if m = 4 \<or> m = 6 \<or> m = 9 \<or> m = 11 then 30
      else 31)"

definition to_datetime_iso :: "string \<Rightarrow> timestamp option" where
  "to_datetime_iso s =
     (if length s = 10 \<and> s ! 4 = CHR ''-'' \<and> s ! 7 = CHR ''-'' then
        (case (number 0 (take 4 s), number 0 (take 2 (drop 5 s)), number 0 (drop 8 s)) of
           (Some y, Some m, Some d) \<Rightarrow>
             if 1678 \<le> y \<and> y \<le> 2261 \<and> 1 \<le> m \<and> m \<le> 12
                \<and> 1 \<le> d \<and> d \<le> days_in_month y m
             then Some (int y, m, d) else None
         | _ \<Rightarrow> None)
      else None)"

text \<open>
  \<open>str\<close> of a monthly period, as line 96 renders the month column: four digits of
  year, a dash, two digits of month.
\<close>

definition digit_char :: "nat \<Rightarrow> char" where
  "digit_char n = ''0123456789'' ! (n mod 10)"

definition period_str :: "period \<Rightarrow> string" where
  "period_str pm =
     (let y = nat (fst pm); m = snd pm
      in [digit_char (y div 1000), digit_char (y div 100), digit_char (y div 10),
          digit_char y, CHR ''-'', digit_char (m div 10), digit_char m])"

subsection \<open>The analysis part of main\<close>

text \<open>
  Lines 148 to 152 of \<open>main\<close>, with the two tables as arguments in place of the CSV
  files: the merged table and the six views computed from it.
\<close>

record views =
  v_customer_revenue :: "(string \<times> rat) list"
  v_clv :: "(int \<times> clv_row) list"
  v_monthly_sales :: "(period \<times> rat) list"
  v_top_products :: "(string \<times> rat) list"
  v_region_sales :: "(string \<times> rat) list"
  v_pivot_table :: pivot_table

definition analyse :: "enriched_row list \<Rightarrow> views" where
  "analyse df =
     (let (customer_revenue, clv) = customer_analysis df;
          (monthly_sales, top_products, region_sales) = sales_analysis df;
          pivot = pivot_analysis df
      in \<lparr>v_customer_revenue = customer_revenue, v_clv = clv,
          v_monthly_sales = monthly_sales, v_top_products = top_products,
          v_region_sales = region_sales, v_pivot_table = pivot\<rparr>)"

definition main_views :: "(string \<Rightarrow> timestamp option) \<Rightarrow> sales_row list
    \<Rightarrow> customer_row list \<Rightarrow> error + views" where
  "main_views to_datetime sales customers =
     (case preprocess_data to_datetime sales customers of
        Inl e \<Rightarrow> Inl e
      | Inr df \<Rightarrow> Inr (analyse df))"

subsection \<open>Example tables\<close>

text \<open>The two sales rows and the one customer of the worked example, and their join.\<close>

definition example_sales :: "sales_row list" where
  "example_sales =
     [\<lparr>order_id = 1, customer_id = 1, product_name = ''Widget'', quantity = 2, price = 10,
       order_date = ''2024-01-05'', region = ''West''\<rparr>,
      \<lparr>order_id = 2, customer_id = 1, product_name = ''Widget'', quantity = 1, price = 10,
       order_date = ''2024-02-10'', region = ''West''\<rparr>]"

definition example_customers :: "customer_row list" where
  "example_customers = [\<lparr>c_customer_id = 1, c_customer_name = ''Alice''\<rparr>]"

text \<open>A customer table in which two rows share the \<open>customer_id\<close> 1.\<close>

definition twin_customers :: "customer_row list" where
  "twin_customers =
     [\<lparr>c_customer_id = 1, c_customer_name = ''Alice''\<rparr>,
      \<lparr>c_customer_id = 1, c_customer_name = ''Alicia''\<rparr>]"

definition example_df :: "enriched_row list" where
  "example_df =
     [\<lparr>e_order_id = 1, e_customer_id = 1, e_product_name = ''Widget'', e_quantity = 2,
       e_price = 10, e_order_date = (2024, 1, 5), e_region = ''West'', e_revenue = 20,
       e_month = (2024, 1), e_customer_name = ''Alice''\<rparr>,
      \<lparr>e_order_id = 2, e_customer_id = 1, e_product_name = ''Widget'', e_quantity = 1,
       e_price = 10, e_order_date = (2024, 2, 10), e_region = ''West'', e_revenue = 10,
       e_month = (2024, 2), e_customer_name = ''Alice''\<rparr>]"

text \<open>
  A merged table with two regions and two products in which the pairs (East, Widget)
  and (West, Gadget) have no row: Alice buys widgets in the West, Bob a gadget in the
  East.
\<close>

definition sparse_df :: "enriched_row list" where
  "sparse_df =
     example_df @
     [\<lparr>e_order_id = 3, e_customer_id = 2, e_product_name = ''Gadget'', e_quantity = 1,
       e_price = 5, e_order_date = (2024, 2, 11), e_region = ''East'', e_revenue = 5,
       e_month = (2024, 2), e_customer_name = ''Bob''\<rparr>]"

text \<open>
  A merged table with twelve products \<open>A\<close> to \<open>L\<close>, one order each, the
  \<open>n\<close>-th of revenue \<open>n\<close>.
\<close>

definition product_row :: "nat \<Rightarrow> enriched_row" where
  "product_row n =
     \<lparr>e_order_id = int n, e_customer_id = 1, e_product_name = [char_of (64 + n)],
      e_quantity = of_nat n, e_price = 1, e_order_date = (2024, 1, 5), e_region = ''West'',
      e_revenue = of_nat n, e_month = (2024, 1), e_customer_name = ''Alice''\<rparr>"

definition twelve_products_df :: "enriched_row list" where
  "twelve_products_df = map product_row [1, 2, 3, 4, 5, 6, 7, 8, 9, 10, 11, 12]"

subsection \<open>Helper lemmas: group-by\<close>

lemma groupby_keys: "map fst (groupby key df) = sort (remdups (map key df))"
  by (simp add: groupby_def comp_def)

lemma groupby_sum_keys: "map fst (groupby_sum key col df) = sort (remdups (map key df))"
  by (simp add: groupby_sum_def groupby_def comp_def)





subsection \<open>Helper lemmas: descending sort\<close>




subsection \<open>Revenue conservation\<close>


subsection \<open>Further facts about the descending sort and group-by\<close>

lemma sort_values_desc_sorted: "sorted_wrt (\<ge>) (map snd (sort_values_desc s))"
  using sorted_sort_key [of "\<lambda>p. - snd p" s]
  by (simp add: sort_values_desc_def sorted_wrt_map sorted_map)

lemma sort_values_desc_set: "set (sort_values_desc s) = set s"
  by (simp add: sort_values_desc_def)

lemma sort_values_desc_length: "length (sort_values_desc s) = length s"
  by (simp add: sort_values_desc_def)

lemma groupby_sum_length: "length (groupby_sum key col df) = card (key ` set df)"
  by (simp add: groupby_sum_def groupby_def length_remdups_card_conv)

lemma groupby_sum_entry:
  "(k, v) \<in> set (groupby_sum key col df) \<longleftrightarrow>
     k \<in> key ` set df \<and> v = sum_list (map col (filter (\<lambda>r. key r = k) df))"
  by (auto simp: groupby_sum_def groupby_def)

lemma groupby_sum_map_of:
  "map_of (groupby_sum key col df) k =
     (if k \<in> key ` set df then Some (sum_list (map col (filter (\<lambda>r. key r = k) df))) else None)"
  by (simp add: groupby_sum_def groupby_def map_of_map_restrict restrict_map_def comp_def)

lemma groupby_sum_strict: "sorted_wrt (<) (map fst (groupby_sum key col df))"
  by (simp add: groupby_sum_keys strict_sorted_iff)

subsection \<open>The join\<close>

lemma convert_dates_rows:
  "convert_dates to_datetime sales = Inr dated \<Longrightarrow> map fst dated = sales"
  by (induction sales arbitrary: dated) (auto split: option.splits sum.splits)

lemma convert_dates_succeeds:
  "\<forall>s\<in>set sales. to_datetime (order_date s) \<noteq> None
     \<Longrightarrow> \<exists>dated. convert_dates to_datetime sales = Inr dated"
  by (induction sales) (auto split: option.splits sum.splits)

lemma merge_inner_ids:
  "r \<in> set (merge_inner dated customers) \<Longrightarrow> e_customer_id r \<in> c_customer_id ` set customers"
proof -
  assume "r \<in> set (merge_inner dated customers)"
  then obtain st c where c: "c \<in> set customers" "c_customer_id c = customer_id (fst st)"
    and r: "r = enrich st c"
    by (auto simp: merge_inner_def)
  have "e_customer_id r = c_customer_id c"
    by (simp add: r enrich_def c(2))
  with c(1) show ?thesis by (metis image_eqI)
qed

lemma unique_key_matches:
  "distinct (map key xs) \<Longrightarrow> length (filter (\<lambda>x. key x = k) xs) \<le> 1"
proof (induction xs)
  case Nil
  then show ?case by simp
next
  case (Cons a xs)
  show ?case
  proof (cases "key a = k")
    case True
    from Cons.prems have "key a \<notin> key ` set xs" by simp
    with True have "\<forall>x\<in>set xs. key x \<noteq> k" by (metis image_eqI)
    then have "filter (\<lambda>x. key x = k) xs = []"
      by (simp add: filter_empty_conv)
    with True show ?thesis by simp
  next
    case False
    with Cons show ?thesis by simp
  qed
qed

lemma length_concat_le:
  "(\<And>x. x \<in> set xs \<Longrightarrow> length (f x) \<le> 1) \<Longrightarrow> length (concat (map f xs)) \<le> length xs"
proof (induction xs)
  case Nil
  then show ?case by simp
next
  case (Cons a xs)
  have "length (f a) \<le> 1" by (rule Cons.prems) simp
  moreover have "length (concat (map f xs)) \<le> length xs"
    by (rule Cons.IH) (rule Cons.prems, simp)
  ultimately show ?case by simp
qed

lemma merge_inner_length:
  assumes "distinct (map c_customer_id customers)"
  shows "length (merge_inner dated customers) \<le> length dated"
  unfolding merge_inner_def
  using unique_key_matches [OF assms] by (intro length_concat_le) simp

lemma merge_inner_length_general:
  "length (merge_inner dated customers) \<le> length dated * length customers"
  unfolding merge_inner_def
proof (induction dated)
  case Nil
  then show ?case by simp
next
  case (Cons st rest)
  have "length (filter (\<lambda>c. c_customer_id c = customer_id (fst st)) customers) \<le> length customers"
    by (rule length_filter_le)
  with Cons show ?case by (simp add: add_le_mono)
qed

text \<open>
  Claim C2, as amended. When \<open>preprocess_data\<close> returns a merged table, every row
  of it has a \<open>customer_id\<close> of the customer table. The table has at most as many
  rows as the sales table provided no two customer rows share a \<open>customer_id\<close>; in
  general a sales row yields one row per matching customer row, so the bound is the
  product of the two row counts.
\<close>

theorem join_invariant:
  assumes "preprocess_data to_datetime sales customers = Inr df"
  shows "(\<forall>r\<in>set df. e_customer_id r \<in> c_customer_id ` set customers)
         \<and> (distinct (map c_customer_id customers) \<longrightarrow> length df \<le> length sales)
         \<and> length df \<le> length sales * length customers"
proof -
  from assms obtain dated where
    d: "convert_dates to_datetime sales = Inr dated" and df: "df = merge_inner dated customers"
    by (auto simp: preprocess_data_def split: sum.splits)
  have len: "length dated = length sales"
    using convert_dates_rows [OF d] by (metis length_map)
  show ?thesis
    using merge_inner_ids [of _ dated customers] merge_inner_length [of customers dated]
      merge_inner_length_general [of dated customers]
    by (auto simp: df len)
qed

text \<open>The worked example satisfies the hypotheses: its one customer has a unique id.\<close>

theorem join_invariant_witness:
  "preprocess_data to_datetime_iso example_sales example_customers = Inr example_df
   \<and> distinct (map c_customer_id example_customers)
   \<and> e_customer_id ` set example_df \<subseteq> c_customer_id ` set example_customers
   \<and> length example_df \<le> length example_sales"
proof -
  have h: "preprocess_data to_datetime_iso example_sales example_customers = Inr example_df"
    by code_simp
  have d: "distinct (map c_customer_id example_customers)"
    by (simp add: example_customers_def)
  from join_invariant [OF h] d h show ?thesis by auto
qed

text \<open>
  The row bound of claim C2 fails as stated: with two customer rows of id 1, each of the
  two sales rows of customer 1 is joined to both, and the merged table has four rows.
\<close>

theorem join_row_count_counterexample:
  "map_sum id (map e_customer_name)
     (preprocess_data to_datetime_iso example_sales twin_customers)
     = Inr [''Alice'', ''Alicia'', ''Alice'', ''Alicia'']
   \<and> map_sum id length (preprocess_data to_datetime_iso example_sales twin_customers) = Inr 4
   \<and> length example_sales = 2"
  by code_simp

text \<open>The join returns a table whenever every date string parses.\<close>

lemma preprocess_data_succeeds:
  assumes "\<forall>s\<in>set sales. to_datetime (order_date s) \<noteq> None"
  shows "\<exists>df. preprocess_data to_datetime sales customers = Inr df"
  using convert_dates_succeeds [OF assms] by (auto simp: preprocess_data_def)

subsection \<open>The worked example\<close>

text \<open>
  Claim C3. On the two sales rows and the one customer of the example, the analysis
  yields \<open>customer_revenue = {Alice: 30}\<close>, the lifetime-value row of customer 1 with
  30 spent over 2 orders and an average of 15, the monthly sales 20 for 2024-01 and 10
  for 2024-02 in this order, and 30 in the pivot cell of West and Widget.
\<close>

theorem end_to_end_example:
  "map_sum id v_customer_revenue (main_views to_datetime_iso example_sales example_customers)
     = Inr [(''Alice'', 30)]
   \<and> map_sum id (\<lambda>v. map_of (v_clv v) 1)
         (main_views to_datetime_iso example_sales example_customers)
     = Inr (Some \<lparr>total_spent = 30, total_orders = 2, avg_order_value = Num 15\<rparr>)
   \<and> map_sum id v_monthly_sales (main_views to_datetime_iso example_sales example_customers)
     = Inr [((2024, 1), 20), ((2024, 2), 10)]
   \<and> map_sum id (\<lambda>v. map (\<lambda>e. (period_str (fst e), snd e)) (v_monthly_sales v))
         (main_views to_datetime_iso example_sales example_customers)
     = Inr [(''2024-01'', 20), (''2024-02'', 10)]
   \<and> map_sum id (\<lambda>v. pivot_loc (v_pivot_table v) ''West'' ''Widget'')
         (main_views to_datetime_iso example_sales example_customers)
     = Inr (Inr (Some 30))"
proof -
  have v: "main_views to_datetime_iso example_sales example_customers = Inr (analyse example_df)"
    by code_simp
  have cr: "v_customer_revenue (analyse example_df) = [(''Alice'', 30)]"
    by code_simp
  have clv: "map_of (v_clv (analyse example_df)) 1
      = Some \<lparr>total_spent = 30, total_orders = 2, avg_order_value = Num 15\<rparr>"
    by code_simp
  have ms: "v_monthly_sales (analyse example_df) = [((2024, 1), 20), ((2024, 2), 10)]"
    by code_simp
  have str: "map (\<lambda>e. (period_str (fst e), snd e)) [((2024, 1), 20 :: rat), ((2024, 2), 10)]
      = [(''2024-01'', 20), (''2024-02'', 10)]"
    by (simp add: period_str_def digit_char_def Let_def)
  have pv: "pivot_loc (v_pivot_table (analyse example_df)) ''West'' ''Widget'' = Inr (Some 30)"
    by code_simp
  show ?thesis
    unfolding v by (simp only: map_sum.simps id_apply cr clv ms str pv simp_thms)
qed

subsection \<open>Customer lifetime value\<close>

lemma clv_of_eq:
  "clv_of df =
     map (\<lambda>c. (c, clv_agg (filter (\<lambda>r. e_customer_id r = c) df)))
       (sort (remdups (map e_customer_id df)))"
  by (simp add: clv_of_def customer_analysis_def groupby_def comp_def)


lemma clv_of_lookup:
  "map_of (clv_of df) c =
     (if c \<in> e_customer_id ` set df
      then Some (clv_agg (filter (\<lambda>r. e_customer_id r = c) df)) else None)"
  by (simp add: clv_of_eq map_of_map_restrict restrict_map_def)

lemma nunique_card: "nunique xs = card (set xs)"
  by (simp add: nunique_def length_remdups_card_conv)

lemma nunique_positive: "xs \<noteq> [] \<Longrightarrow> 1 \<le> nunique xs"
  by (simp add: nunique_card Suc_le_eq card_gt_0_iff)

lemma group_nonempty:
  "c \<in> key ` set df \<Longrightarrow> filter (\<lambda>r. key r = c) df \<noteq> []"
  by (auto simp: filter_empty_conv)

lemma clv_agg_nonempty:
  assumes "g \<noteq> []"
  shows "1 \<le> total_orders (clv_agg g)
         \<and> avg_order_value (clv_agg g)
             = Num (total_spent (clv_agg g) / of_nat (total_orders (clv_agg g)))"
proof -
  have pos: "1 \<le> nunique (map e_order_id g)"
    using assms by (intro nunique_positive) simp
  then have "(of_nat (nunique (map e_order_id g)) :: rat) \<noteq> 0"
    by simp
  with pos show ?thesis
    by (simp add: clv_agg_def Let_def truediv_def)
qed

text \<open>
  Claim C4. For every merged table and every \<open>customer_id\<close> \<open>c\<close> occurring in it,
  \<open>clv\<close> has a row for \<open>c\<close> whose \<open>total_spent\<close> is the sum of the revenue
  of the rows of \<open>c\<close>, whose \<open>total_orders\<close> is the number of distinct
  \<open>order_id\<close> values among them, and whose \<open>avg_order_value\<close> is the quotient
  of the two.
\<close>

theorem clv_consistency:
  assumes "c \<in> e_customer_id ` set df"
  shows "\<exists>row. map_of (clv_of df) c = Some row
           \<and> total_spent row = sum_list (map e_revenue (filter (\<lambda>r. e_customer_id r = c) df))
           \<and> total_orders row = card (e_order_id ` {r \<in> set df. e_customer_id r = c})
           \<and> avg_order_value row = Num (total_spent row / of_nat (total_orders row))"
proof -
  let ?g = "filter (\<lambda>r. e_customer_id r = c) df"
  have ne: "?g \<noteq> []" using assms by (rule group_nonempty)
  have "map_of (clv_of df) c = Some (clv_agg ?g)"
    using assms by (simp add: clv_of_lookup)
  moreover have "total_spent (clv_agg ?g) = sum_list (map e_revenue ?g)"
    by (simp add: clv_agg_def Let_def)
  moreover have "total_orders (clv_agg ?g) = card (e_order_id ` {r \<in> set df. e_customer_id r = c})"
    by (simp add: clv_agg_def Let_def nunique_card)
  ultimately show ?thesis
    using clv_agg_nonempty [OF ne] by simp
qed

theorem clv_consistency_witness:
  "1 \<in> e_customer_id ` set example_df
   \<and> (\<exists>row. map_of (clv_of example_df) 1 = Some row
          \<and> total_spent row = 30 \<and> total_orders row = 2 \<and> avg_order_value row = Num 15)"
proof -
  have h: "1 \<in> e_customer_id ` set example_df"
    by (simp add: example_df_def)
  have s: "sum_list (map e_revenue (filter (\<lambda>r. e_customer_id r = 1) example_df)) = 30"
    by (simp add: example_df_def)
  have "e_order_id ` {r \<in> set example_df. e_customer_id r = 1}
          = set (map e_order_id (filter (\<lambda>r. e_customer_id r = 1) example_df))"
    by simp
  also have "\<dots> = {1, 2}"
    by (simp add: example_df_def)
  finally have n: "card (e_order_id ` {r \<in> set example_df. e_customer_id r = 1}) = 2"
    by simp
  from clv_consistency [OF h] obtain row where
    "map_of (clv_of example_df) 1 = Some row" "total_spent row = 30" "total_orders row = 2"
    "avg_order_value row = Num (total_spent row / of_nat (total_orders row))"
    unfolding s n by blast
  then show ?thesis using h by auto
qed



subsection \<open>Rankings\<close>

text \<open>
  Claim C5. For every merged table, the values of \<open>customer_revenue\<close> and of
  \<open>region_sales\<close> are non-increasing along the sequence: every entry is at least
  as large as every later one, so in particular as the next one.
\<close>

theorem ranking_correctness:
  "sorted_wrt (\<ge>) (map snd (customer_revenue_of df))
   \<and> sorted_wrt (\<ge>) (map snd (region_sales_of df))"
  by (simp add: customer_revenue_of_def region_sales_of_def customer_analysis_def
      sales_analysis_def sort_values_desc_sorted)

text \<open>
  The order is not strict: two regions of equal revenue stand next to each other with
  equal values.
\<close>

lemma ranking_ties:
  "region_sales_of [product_row 5, (product_row 5)\<lparr>e_region := ''East''\<rparr>]
     = [(''East'', 5), (''West'', 5)]"
  by code_simp

subsection \<open>Monthly sales\<close>

text \<open>
  Claim C7. For every merged table, the months of \<open>monthly_sales\<close> are strictly
  ascending (so no month occurs twice), they are exactly the months present in the
  table, and every row carries the summed revenue of its month.
\<close>

theorem monthly_sales_ordering:
  "sorted_wrt (<) (map fst (monthly_sales_of df))
   \<and> set (map fst (monthly_sales_of df)) = e_month ` set df
   \<and> (\<forall>(m, v) \<in> set (monthly_sales_of df).
         v = sum_list (map e_revenue (filter (\<lambda>r. e_month r = m) df)))"
proof -
  have eq: "monthly_sales_of df = groupby_sum e_month e_revenue df"
    by (simp add: monthly_sales_of_def sales_analysis_def)
  have "sorted_wrt (<) (map fst (monthly_sales_of df))"
    unfolding eq by (rule groupby_sum_strict)
  moreover have "set (map fst (monthly_sales_of df)) = e_month ` set df"
    unfolding eq by (simp add: groupby_sum_keys)
  moreover have "\<forall>(m, v) \<in> set (monthly_sales_of df).
         v = sum_list (map e_revenue (filter (\<lambda>r. e_month r = m) df))"
    unfolding eq by (auto simp: groupby_sum_entry)
  ultimately show ?thesis by blast
qed

theorem monthly_sales_ordering_witness:
  "monthly_sales_of sparse_df = [((2024, 1), 20), ((2024, 2), 15)]
   \<and> sorted_wrt (<) (map fst (monthly_sales_of sparse_df))
   \<and> e_month ` set sparse_df = {(2024, 1), (2024, 2)}
   \<and> sum_list (map e_revenue (filter (\<lambda>r. e_month r = (2024, 2)) sparse_df)) = 15"
proof -
  have v: "monthly_sales_of sparse_df = [((2024, 1), 20), ((2024, 2), 15)]"
    by code_simp
  have m: "((2024, 2), 15) \<in> set (monthly_sales_of sparse_df)"
    by (simp add: v)
  from monthly_sales_ordering [of sparse_df]
  have s: "sorted_wrt (<) (map fst (monthly_sales_of sparse_df))"
    and k: "set (map fst (monthly_sales_of sparse_df)) = e_month ` set sparse_df"
    and b: "\<forall>(m, v) \<in> set (monthly_sales_of sparse_df).
         v = sum_list (map e_revenue (filter (\<lambda>r. e_month r = m) sparse_df))"
    by blast+
  from bspec [OF b m] have "sum_list (map e_revenue (filter (\<lambda>r. e_month r = (2024, 2)) sparse_df)) = 15"
    by simp
  moreover from k have "e_month ` set sparse_df = {(2024, 1), (2024, 2)}"
    by (simp add: v)
  ultimately show ?thesis using v s by blast
qed

subsection \<open>Top products\<close>

lemma top_products_of_eq:
  "top_products_of df = take 10 (sort_values_desc (groupby_sum e_product_name e_revenue df))"
  by (simp add: top_products_of_def sales_analysis_def head_def)

lemma sorted_desc_take_dominates:
  assumes "sorted_wrt (\<ge>) (map snd s)" and "a \<in> set (take n s)" and "b \<in> set (drop n s)"
  shows "snd b \<le> (snd a :: rat)"
proof -
  have "sorted_wrt (\<ge>) (map snd (take n s) @ map snd (drop n s))"
    using assms(1) by (simp flip: map_append)
  with assms(2,3) show ?thesis
    by (auto simp: sorted_wrt_append)
qed

text \<open>
  Claim C8. For every merged table, \<open>top_products\<close> is the first 10 entries of the
  per-product revenue sums sorted descending. It has \<open>min 10 n\<close> entries for
  \<open>n\<close> distinct product names; its values are non-increasing, its products are
  distinct, each entry carries the summed revenue of its product, and no product left
  out has a larger sum than a product kept.
\<close>

theorem top_products_truncation:
  "top_products_of df = take 10 (sort_values_desc (groupby_sum e_product_name e_revenue df))
   \<and> length (top_products_of df) = min 10 (card (e_product_name ` set df))
   \<and> sorted_wrt (\<ge>) (map snd (top_products_of df))
   \<and> distinct (map fst (top_products_of df))
   \<and> (\<forall>(p, v) \<in> set (top_products_of df).
         v = sum_list (map e_revenue (filter (\<lambda>r. e_product_name r = p) df)))
   \<and> (\<forall>q \<in> e_product_name ` set df - fst ` set (top_products_of df).
        \<forall>(p, v) \<in> set (top_products_of df).
          sum_list (map e_revenue (filter (\<lambda>r. e_product_name r = q) df)) \<le> v)"
proof -
  let ?g = "groupby_sum e_product_name e_revenue df"
  let ?s = "sort_values_desc ?g"
  note eq = top_products_of_eq [of df]
  have len: "length (top_products_of df) = min 10 (card (e_product_name ` set df))"
    by (simp add: eq sort_values_desc_length groupby_sum_length min.commute)
  have srt: "sorted_wrt (\<ge>) (map snd (top_products_of df))"
    unfolding eq using sort_values_desc_sorted [of ?g]
    by (simp add: sorted_wrt_take flip: take_map)
  have "distinct (map fst ?g)"
    by (simp add: groupby_sum_keys)
  then have "distinct (map fst ?s)"
    by (simp add: sort_values_desc_def distinct_map)
  then have dst: "distinct (map fst (top_products_of df))"
    unfolding eq by (simp flip: take_map)
  have sub: "set (top_products_of df) \<subseteq> set ?g"
    unfolding eq using set_take_subset [of 10 ?s] by (simp add: sort_values_desc_set)
  have val: "\<forall>(p, v) \<in> set (top_products_of df).
         v = sum_list (map e_revenue (filter (\<lambda>r. e_product_name r = p) df))"
    using sub by (auto simp: groupby_sum_entry)
  have dom: "\<forall>q \<in> e_product_name ` set df - fst ` set (top_products_of df).
        \<forall>(p, v) \<in> set (top_products_of df).
          sum_list (map e_revenue (filter (\<lambda>r. e_product_name r = q) df)) \<le> v"
  proof (rule ballI, rule ballI)
    fix q x
    assume qq: "q \<in> e_product_name ` set df - fst ` set (top_products_of df)"
      and x: "x \<in> set (top_products_of df)"
    obtain p v where xpv: "x = (p, v)" by (cases x)
    from qq have q: "q \<in> e_product_name ` set df"
      and nq: "q \<notin> fst ` set (top_products_of df)"
      by simp_all
    from x have pv: "(p, v) \<in> set (top_products_of df)"
      by (simp add: xpv)
    let ?w = "sum_list (map e_revenue (filter (\<lambda>r. e_product_name r = q) df))"
    from q have "(q, ?w) \<in> set ?g"
      by (simp add: groupby_sum_entry)
    then have "(q, ?w) \<in> set (take 10 ?s) \<union> set (drop 10 ?s)"
      by (simp add: sort_values_desc_set flip: set_append)
    moreover from nq have "(q, ?w) \<notin> set (take 10 ?s)"
      unfolding eq by force
    ultimately have "(q, ?w) \<in> set (drop 10 ?s)" by blast
    from sorted_desc_take_dominates [OF sort_values_desc_sorted pv [unfolded eq] this]
    show "case x of (p, v) \<Rightarrow> ?w \<le> v" by (simp add: xpv)
  qed
  from eq len srt dst val dom show ?thesis by blast
qed

theorem top_products_truncation_witness:
  "top_products_of twelve_products_df
     = [(''L'', 12), (''K'', 11), (''J'', 10), (''I'', 9), (''H'', 8), (''G'', 7),
        (''F'', 6), (''E'', 5), (''D'', 4), (''C'', 3)]
   \<and> card (e_product_name ` set twelve_products_df) = 12
   \<and> ''B'' \<in> e_product_name ` set twelve_products_df - fst ` set (top_products_of twelve_products_df)
   \<and> sum_list (map e_revenue (filter (\<lambda>r. e_product_name r = ''B'') twelve_products_df)) \<le> 3"
proof -
  have v: "top_products_of twelve_products_df
     = [(''L'', 12), (''K'', 11), (''J'', 10), (''I'', 9), (''H'', 8), (''G'', 7),
        (''F'', 6), (''E'', 5), (''D'', 4), (''C'', 3)]"
    by code_simp
  have b: "''B'' \<in> e_product_name ` set twelve_products_df
             - fst ` set (top_products_of twelve_products_df)"
    unfolding v by code_simp
  have c: "(''C'', 3) \<in> set (top_products_of twelve_products_df)"
    by (simp add: v)
  note t = top_products_truncation [of twelve_products_df]
  from t have "length (top_products_of twelve_products_df)
      = min 10 (card (e_product_name ` set twelve_products_df))"
    by blast
  moreover have "card (e_product_name ` set twelve_products_df) = 12"
    by code_simp
  moreover from t have "\<forall>q \<in> e_product_name ` set twelve_products_df
          - fst ` set (top_products_of twelve_products_df).
        \<forall>(p, v) \<in> set (top_products_of twelve_products_df).
          sum_list (map e_revenue (filter (\<lambda>r. e_product_name r = q) twelve_products_df)) \<le> v"
    by blast
  from bspec [OF bspec [OF this b] c]
  have "sum_list (map e_revenue (filter (\<lambda>r. e_product_name r = ''B'') twelve_products_df)) \<le> 3"
    by simp
  ultimately show ?thesis using v b by blast
qed

subsection \<open>The pivot table\<close>

lemma position_Some:
  "a \<in> set xs \<Longrightarrow> \<exists>i. position a xs = Some i \<and> i < length xs \<and> xs ! i = a"
  by (induction xs) auto

lemma position_None: "a \<notin> set xs \<Longrightarrow> position a xs = None"
  by (induction xs) auto

lemma pivot_loc_cell:
  "pivot_loc (pivot_analysis df) r p =
     (if r \<in> e_region ` set df \<and> p \<in> e_product_name ` set df
      then Inr (map_of (groupby_sum (\<lambda>x. (e_region x, e_product_name x)) e_revenue df) (r, p))
      else Inl KeyError)"
proof (cases "r \<in> e_region ` set df")
  case False
  then have "position r (sort (remdups (map e_region df))) = None"
    by (simp add: position_None)
  with False show ?thesis
    by (simp add: pivot_loc_def pivot_analysis_def Let_def)
next
  case r: True
  then obtain i where i: "position r (sort (remdups (map e_region df))) = Some i"
    "i < length (sort (remdups (map e_region df)))" "sort (remdups (map e_region df)) ! i = r"
    using position_Some [of r "sort (remdups (map e_region df))"] by auto
  show ?thesis
  proof (cases "p \<in> e_product_name ` set df")
    case False
    then have "position p (sort (remdups (map e_product_name df))) = None"
      by (simp add: position_None)
    with False i(1) show ?thesis
      by (simp add: pivot_loc_def pivot_analysis_def Let_def)
  next
    case True
    then obtain j where j: "position p (sort (remdups (map e_product_name df))) = Some j"
      "j < length (sort (remdups (map e_product_name df)))"
      "sort (remdups (map e_product_name df)) ! j = p"
      using position_Some [of p "sort (remdups (map e_product_name df))"] by auto
    from r True i j show ?thesis
      by (simp add: pivot_loc_def pivot_analysis_def Let_def)
  qed
qed

text \<open>
  Claim C9. For every merged table, the cell of a (region, product) pair that occurs in
  some row holds the sum of the revenue of the rows of that pair. The cell of a pair
  that occurs in no row is empty, not zero: it is missing (NaN) when both labels occur in
  the table, and the table has no such cell (the lookup is a KeyError) when the region
  or the product occurs in no row at all.
\<close>

theorem pivot_completeness:
  "((r, p) \<in> (\<lambda>x. (e_region x, e_product_name x)) ` set df \<longrightarrow>
      pivot_loc (pivot_analysis df) r p =
        Inr (Some (sum_list (map e_revenue
               (filter (\<lambda>x. e_region x = r \<and> e_product_name x = p) df)))))
   \<and> ((r, p) \<notin> (\<lambda>x. (e_region x, e_product_name x)) ` set df \<longrightarrow>
      pivot_loc (pivot_analysis df) r p =
        (if r \<in> e_region ` set df \<and> p \<in> e_product_name ` set df
         then Inr None else Inl KeyError))"
proof -
  have f: "(\<lambda>x. (e_region x, e_product_name x) = (r, p))
            = (\<lambda>x. e_region x = r \<and> e_product_name x = p)"
    by auto
  have "(r, p) \<in> (\<lambda>x. (e_region x, e_product_name x)) ` set df
        \<Longrightarrow> r \<in> e_region ` set df \<and> p \<in> e_product_name ` set df"
    by auto
  then show ?thesis
    by (auto simp: pivot_loc_cell groupby_sum_map_of f)
qed

theorem pivot_completeness_witness:
  "(''West'', ''Widget'') \<in> (\<lambda>x. (e_region x, e_product_name x)) ` set sparse_df
   \<and> pivot_loc (pivot_analysis sparse_df) ''West'' ''Widget'' = Inr (Some 30)
   \<and> (''West'', ''Gadget'') \<notin> (\<lambda>x. (e_region x, e_product_name x)) ` set sparse_df
   \<and> pivot_loc (pivot_analysis sparse_df) ''West'' ''Gadget'' = Inr None
   \<and> (''North'', ''Widget'') \<notin> (\<lambda>x. (e_region x, e_product_name x)) ` set sparse_df
   \<and> pivot_loc (pivot_analysis sparse_df) ''North'' ''Widget'' = Inl KeyError"
proof -
  have a: "(''West'', ''Widget'') \<in> (\<lambda>x. (e_region x, e_product_name x)) ` set sparse_df"
    by (simp add: sparse_df_def example_df_def)
  have b: "(''West'', ''Gadget'') \<notin> (\<lambda>x. (e_region x, e_product_name x)) ` set sparse_df"
    by (simp add: sparse_df_def example_df_def)
  have c: "(''North'', ''Widget'') \<notin> (\<lambda>x. (e_region x, e_product_name x)) ` set sparse_df"
    by (simp add: sparse_df_def example_df_def)
  have s: "sum_list (map e_revenue
      (filter (\<lambda>x. e_region x = ''West'' \<and> e_product_name x = ''Widget'') sparse_df)) = 30"
    by (simp add: sparse_df_def example_df_def)
  have l: "''West'' \<in> e_region ` set sparse_df" "''Gadget'' \<in> e_product_name ` set sparse_df"
    "''North'' \<notin> e_region ` set sparse_df"
    by (simp_all add: sparse_df_def example_df_def)
  from pivot_completeness [of "''West''" "''Widget''" sparse_df] a s
  have "pivot_loc (pivot_analysis sparse_df) ''West'' ''Widget'' = Inr (Some 30)"
    by simp
  moreover from pivot_completeness [of "''West''" "''Gadget''" sparse_df] b l
  have "pivot_loc (pivot_analysis sparse_df) ''West'' ''Gadget'' = Inr None"
    by simp
  moreover from pivot_completeness [of "''North''" "''Widget''" sparse_df] c l
  have "pivot_loc (pivot_analysis sparse_df) ''North'' ''Widget'' = Inl KeyError"
    by simp
  ultimately show ?thesis using a b c by blast
qed

subsection \<open>The report on an empty ranking\<close>

lemma customer_revenue_empty: "customer_revenue_of df = [] \<longleftrightarrow> df = []"
  by (simp add: customer_revenue_of_def customer_analysis_def sort_values_desc_def
      groupby_sum_def groupby_def flip: length_0_conv [of "sort_key _ _"])

text \<open>
  Claim C10, as amended. On an empty \<open>customer_revenue\<close> the report fails with the
  IndexError of reading position 0 of the empty index, before anything is printed; on a
  non-empty one it succeeds.
\<close>

theorem print_summary_empty:
  "print_summary df [] = Inl IndexError
   \<and> print_summary df (entry # rest) \<noteq> Inl e"
  by (simp add: print_summary_def Let_def)

text \<open>
  Claim C10 fails as stated: on the empty merged table the ranking is empty and the
  failure of the report is an IndexError, not an EmptyResultError.
\<close>

theorem print_summary_counterexample:
  "customer_revenue_of [] = []
   \<and> print_summary [] (customer_revenue_of []) = Inl IndexError
   \<and> print_summary [] (customer_revenue_of []) \<noteq> Inl EmptyResultError"
proof -
  have e: "customer_revenue_of [] = []"
    by (simp add: customer_revenue_empty)
  show ?thesis
    by (simp add: e print_summary_def Let_def)
qed

end
